theory Spec2Isabelle
  imports Complex_Main "HOL-Library.Word" "HOL-Library.AList"
begin

section \<open>contracts/Token.sol: SunflowerLandToken\<close>

text \<open>
  An address is a 160-bit word; storage starts zeroed. The contract's own storage is
  \<open>gameRoles\<close> and \<open>team\<close>; \<open>owner\<close> is the slot of the inherited Ownable,
  whose constructor stores the deployer. The inherited ERC20Pausable storage is not
  touched by the functions modelled here and is left out.
\<close>

type_synonym address = "160 word"

record token_storage =
  gameRoles :: "address \<Rightarrow> bool"
  team :: address
  owner :: address

definition zero_storage :: token_storage where
  "zero_storage = \<lparr>gameRoles = (\<lambda>_. False), team = 0, owner = 0\<rparr>"

text \<open>
  The constructor's frame: the storage together with the two parameters \<open>_game\<close> and
  \<open>_team\<close>, which are local variables and can be assigned.
\<close>

record constructor_frame =
  storage :: token_storage
  game_param :: address
  team_param :: address

text \<open>
  The body, statement by statement:
  \<^verbatim>\<open>gameRoles[msg.sender] = true;\<close> writes storage,
  \<^verbatim>\<open>_team = team;\<close> writes the parameter from storage.
\<close>

definition constructor_body :: "address \<Rightarrow> constructor_frame \<Rightarrow> constructor_frame" where
  "constructor_body msg_sender f =
     (let st = storage f;
          f1 = f\<lparr>storage := st\<lparr>gameRoles := (gameRoles st)(msg_sender := True)\<rparr>\<rparr>
      in f1\<lparr>team_param := team (storage f1)\<rparr>)"

definition constructor :: "address \<Rightarrow> address \<Rightarrow> address \<Rightarrow> token_storage" where
  "constructor msg_sender game_arg team_arg =
     storage (constructor_body msg_sender
       \<lparr>storage = zero_storage\<lparr>owner := msg_sender\<rparr>,
        game_param = game_arg, team_param = team_arg\<rparr>)"

datatype revert = Revert string

definition onlyOwner :: "address \<Rightarrow> token_storage \<Rightarrow> bool" where
  "onlyOwner msg_sender st = (owner st = msg_sender)"

definition addGameRole :: "address \<Rightarrow> address \<Rightarrow> token_storage \<Rightarrow> revert + token_storage" where
  "addGameRole msg_sender game_arg st =
     (if \<not> onlyOwner msg_sender st then Inl (Revert ''Ownable: caller is not the owner'')
      else Inr (st\<lparr>gameRoles := (gameRoles st)(game_arg := True)\<rparr>))"

definition removeGameRole :: "address \<Rightarrow> address \<Rightarrow> token_storage \<Rightarrow> revert + token_storage" where
  "removeGameRole msg_sender game_arg st =
     (if \<not> onlyOwner msg_sender st then Inl (Revert ''Ownable: caller is not the owner'')
      else Inr (st\<lparr>gameRoles := (gameRoles st)(game_arg := False)\<rparr>))"

definition passTeamRole :: "address \<Rightarrow> address \<Rightarrow> token_storage \<Rightarrow> revert + (token_storage \<times> bool)" where
  "passTeamRole msg_sender team_arg st =
     (if \<not> onlyOwner msg_sender st then Inl (Revert ''Ownable: caller is not the owner'')
      else Inr (st\<lparr>team := team_arg\<rparr>, True))"

section \<open>The withdraw handler\<close>

text \<open>
  The request body as its TypeScript type \<open>WithdrawBody\<close> gives it; numbers are
  integers here (the valid ids are), strings are character lists.
\<close>

record withdraw_body =
  farmId :: int
  sessionId :: string
  sender :: string
  signature :: string
  sfl :: string
  ids :: "int list"
  amounts :: "string list"

text \<open>The argument object of \<open>withdrawSignature\<close>.\<close>

record 'tax signature_args =
  arg_sender :: string
  arg_farmId :: int
  arg_sessionId :: string
  arg_sfl :: string
  arg_ids :: "int list"
  arg_amounts :: "string list"
  arg_tax :: 'tax

record 'sig response =
  statusCode :: nat
  body :: 'sig

datatype handler_error =
    Error string
  | JoiError string
  | VerifyError
  | SignerError

text \<open>
  What the module imports and does not define: the catalog tables (the keys of
  \<open>TOOLS\<close>, \<open>LimitedItems\<close> and \<open>RESOURCES\<close> in insertion order and the total
  table \<open>KNOWN_IDS\<close>), the environment variable \<open>NETWORK\<close>, and the services
  \<open>verifyAccount\<close> (False when it throws), \<open>canSync\<close>, \<open>getTax\<close> and
  \<open>withdrawSignature\<close> (None when it rejects).
\<close>

record ('sig, 'tax) withdraw_env =
  TOOLS :: "string list"
  LimitedItems :: "string list"
  RESOURCES :: "string list"
  KNOWN_IDS :: "string \<Rightarrow> int"
  NETWORK :: "string option"
  verifyAccount :: "string \<Rightarrow> string \<Rightarrow> bool"
  canSync :: "string \<Rightarrow> bool"
  getTax :: "string \<Rightarrow> 'tax"
  withdrawSignature :: "'tax signature_args \<Rightarrow> 'sig option"

text \<open>
  \<open>Object.keys({...a, ...b})\<close>: the keys of \<open>a\<close>, then those keys of \<open>b\<close> that
  \<open>a\<close> does not have.
\<close>

definition spread_keys :: "string list \<Rightarrow> string list \<Rightarrow> string list" where
  "spread_keys a b = a @ filter (\<lambda>k. k \<notin> set a) b"

definition VALID_ITEMS :: "('sig, 'tax) withdraw_env \<Rightarrow> string list" where
  "VALID_ITEMS env = spread_keys (spread_keys (TOOLS env) (LimitedItems env)) (RESOURCES env)"

definition VALID_IDS :: "('sig, 'tax) withdraw_env \<Rightarrow> int list" where
  "VALID_IDS env = map (\<lambda>id. KNOWN_IDS env id) (VALID_ITEMS env)"

definition MAX_SAFE_INTEGER :: int where
  "MAX_SAFE_INTEGER = 9007199254740991"

text \<open>
  The item schema \<open>Joi.number().valid(...VALID_IDS)\<close> of \<open>ids\<close>. With values,
  \<open>valid\<close> accepts the listed values and refuses every other one. Called with no
  value it adds no restriction, and the item is a plain \<open>Joi.number()\<close>, which
  refuses only a number outside the safe integers.
\<close>

definition id_allowed :: "int list \<Rightarrow> int \<Rightarrow> bool" where
  "id_allowed valid_ids i =
     (if valid_ids = [] then \<bar>i\<bar> \<le> MAX_SAFE_INTEGER else i \<in> set valid_ids)"

text \<open>
  The Joi schema on a typed body, key by key in the schema's order; the result is the
  key that fails. \<open>Joi.string().required()\<close> refuses the empty string,
  \<open>Joi.number()\<close> a number outside the safe integers; \<open>.min(0)\<close> refuses
  nothing.
\<close>

definition schema_validate :: "int list \<Rightarrow> withdraw_body \<Rightarrow> string option" where
  "schema_validate valid_ids b =
     (if sessionId b = [] then Some ''sessionId''
      else if \<bar>farmId b\<bar> > MAX_SAFE_INTEGER then Some ''farmId''
      else if sender b = [] then Some ''sender''
      else if signature b = [] then Some ''signature''
      else if sfl b = [] then Some ''sfl''
      else if \<not> list_all (id_allowed valid_ids) (ids b) then Some ''ids''
      else if \<not> list_all (\<lambda>a. a \<noteq> []) (amounts b) then Some ''amounts''
      else None)"

text \<open>
  The handler returns the list of argument objects it handed to the signer together
  with its result: an error for every \<open>throw\<close>, the response otherwise. The event
  carries the decoded body, or none.
\<close>

definition handler ::
  "('sig, 'tax) withdraw_env \<Rightarrow> withdraw_body option
     \<Rightarrow> 'tax signature_args list \<times> (handler_error + 'sig response)" where
  "handler env event =
     (case event of
        None \<Rightarrow> ([], Inl (Error ''No body found in event''))
      | Some b \<Rightarrow>
          (case schema_validate (VALID_IDS env) b of
             Some key \<Rightarrow> ([], Inl (JoiError key))
           | None \<Rightarrow>
               if \<not> verifyAccount env (sender b) (signature b) then ([], Inl VerifyError)
               else if NETWORK env \<noteq> Some ''mumbai'' \<and> \<not> canSync env (sender b)
                 then ([], Inl (Error ''Not on whitelist''))
               else
                 (let args = \<lparr>arg_sender = sender b, arg_farmId = farmId b,
                               arg_sessionId = sessionId b, arg_sfl = sfl b,
                               arg_ids = ids b, arg_amounts = amounts b,
                               arg_tax = getTax env (sfl b)\<rparr>
                  in case withdrawSignature env args of
                       None \<Rightarrow> ([args], Inl SignerError)
                     | Some sg \<Rightarrow> ([args], Inr \<lparr>statusCode = 200, body = sg\<rparr>))))"

text \<open>
  A catalog, an environment and a request for the examples of the withdraw handler.
\<close>

definition test_KNOWN_IDS :: "string \<Rightarrow> int" where
  "test_KNOWN_IDS name =
     (case map_of [(''Sunflower Seed'', 101), (''Potato Seed'', 102), (''Sunflower'', 201),
                   (''Axe'', 301), (''Pickaxe'', 302), (''Chicken Coop'', 401),
                   (''Pumpkin Soup'', 501), (''Wood'', 601), (''Stone'', 602)] name of
        Some i \<Rightarrow> i | None \<Rightarrow> 0)"

definition test_withdraw_env :: "(string, int) withdraw_env" where
  "test_withdraw_env =
     \<lparr>TOOLS = [''Axe'', ''Pickaxe''], LimitedItems = [''Chicken Coop''],
      RESOURCES = [''Wood'', ''Stone''], KNOWN_IDS = test_KNOWN_IDS,
      NETWORK = Some ''mainnet'', verifyAccount = (\<lambda>address sg. True),
      canSync = (\<lambda>address. True), getTax = (\<lambda>sfl. 3000),
      withdrawSignature = (\<lambda>args. Some ''0xsigned'')\<rparr>"

definition test_withdraw_body :: withdraw_body where
  "test_withdraw_body =
     \<lparr>farmId = 13, sessionId = ''0x01'', sender = ''0xA9Fe'', signature = ''0xabc'',
      sfl = ''5'', ids = [301, 601], amounts = [''1'', ''2'']\<rparr>"

section \<open>src/domain/game/lib/transforms.ts\<close>

text \<open>
  A \<open>Decimal\<close> is an exact rational; the module constructs Decimals and compares
  them with zero, which the library does exactly. The constructor
  \<open>new Decimal(s)\<close> of the library is a parameter \<open>D\<close>: \<open>D s\<close> is the value of
  the string, or None when the constructor throws on it. An object is the list of its
  entries in the order \<open>Object.keys\<close> enumerates them; a spread with one more key,
  \<open>{...items, [k]: v}\<close>, is \<open>AList.update k v items\<close>.
\<close>

type_synonym decimal = rat

text \<open>
  The errors of the game: what the Decimal constructor, \<open>fromWei\<close> and a property
  read of \<open>undefined\<close> throw, then the error kinds that section 7 of the
  specification lists for the save path.
\<close>

datatype game_error =
    DecimalError
  | Web3Error
  | TypeError
  | FarmNotFound
  | TemporalOrder
  | TemporalFuture
  | TemporalPast
  | TemporalRange
  | TemporalGap
  | TemporalDensity
  | UnknownAction
  | UnknownItem string
  | InsufficientInventory string
  | InsufficientBalance
  | InsufficientStock string
  | NotCraftable string
  | NotSellable string
  | FieldOccupied
  | FieldEmpty
  | NotGrown
  | TreeNotRecovered
  | InvalidIndex
  | NotEligible string
  | SessionConflict

record planted_field =
  plantedAt :: int
  field_item :: string

record tree =
  choppedAt :: int
  wood :: decimal

record db_tree =
  db_choppedAt :: int
  db_wood :: string

text \<open>\<open>Account["gameState"]\<close>, the stored document: quantities are strings.\<close>

record account_game_state =
  db_balance :: string
  db_inventory :: "(string \<times> string) list"
  db_stock :: "(string \<times> string) list"
  db_fields :: "(nat \<times> planted_field) list"
  db_trees :: "(nat \<times> db_tree) list option"

record game_state =
  balance :: decimal
  inventory :: "(string \<times> decimal) list"
  stock :: "(string \<times> decimal) list"
  fields' :: "(nat \<times> planted_field) list"
  trees :: "(nat \<times> tree) list"

text \<open>
  \<open>new Decimal(obj[itemName] || 0)\<close>: a missing or empty string is falsy and gives 0.
\<close>

definition decimal_or_zero :: "(string \<Rightarrow> decimal option) \<Rightarrow> string option \<Rightarrow> decimal option" where
  "decimal_or_zero D v =
     (case v of None \<Rightarrow> Some 0 | Some s \<Rightarrow> if s = [] then Some 0 else D s)"

text \<open>The two \<open>reduce\<close> calls over \<open>Object.keys\<close> of the inventory and of the stock.\<close>

fun reduce_quantities ::
  "(string \<Rightarrow> decimal option) \<Rightarrow> (string \<times> string) list \<Rightarrow> string list
     \<Rightarrow> (string \<times> decimal) list \<Rightarrow> game_error + (string \<times> decimal) list" where
  "reduce_quantities D obj [] items = Inr items"
| "reduce_quantities D obj (itemName # ks) items =
     (case decimal_or_zero D (map_of obj itemName) of
        None \<Rightarrow> Inl DecimalError
      | Some d \<Rightarrow> reduce_quantities D obj ks (AList.update itemName d items))"

text \<open>
  The \<open>reduce\<close> call over the trees. \<open>dbTrees\<close> is the stored object, whose wood is a
  string, or \<open>INITIAL_TREES\<close>, a \<open>GameState["trees"]\<close> whose wood is a Decimal
  already; \<open>new Decimal\<close> of a Decimal is that value. \<open>dbTrees[Number(index)]\<close>
  is read for each key; reading \<open>choppedAt\<close> of a missing entry would throw.
\<close>

datatype db_trees_source =
    Stored "(nat \<times> db_tree) list"
  | Initial "(nat \<times> tree) list"

fun reduce_trees ::
  "(string \<Rightarrow> decimal option) \<Rightarrow> db_trees_source \<Rightarrow> nat list
     \<Rightarrow> (nat \<times> tree) list \<Rightarrow> game_error + (nat \<times> tree) list" where
  "reduce_trees D dbTrees [] items = Inr items"
| "reduce_trees D (Stored ts) (index # ks) items =
     (case map_of ts index of
        None \<Rightarrow> Inl TypeError
      | Some dbTree \<Rightarrow>
          (case D (db_wood dbTree) of
             None \<Rightarrow> Inl DecimalError
           | Some w \<Rightarrow>
               reduce_trees D (Stored ts) ks
                 (AList.update index \<lparr>choppedAt = db_choppedAt dbTree, wood = w\<rparr> items)))"
| "reduce_trees D (Initial ts) (index # ks) items =
     (case map_of ts index of
        None \<Rightarrow> Inl TypeError
      | Some dbTree \<Rightarrow>
          reduce_trees D (Initial ts) ks
            (AList.update index \<lparr>choppedAt = choppedAt dbTree, wood = wood dbTree\<rparr> items))"

definition trees_keys :: "db_trees_source \<Rightarrow> nat list" where
  "trees_keys dbTrees = (case dbTrees of Stored ts \<Rightarrow> map fst ts | Initial ts \<Rightarrow> map fst ts)"

definition makeGame ::
  "(string \<Rightarrow> decimal option) \<Rightarrow> (nat \<times> tree) list \<Rightarrow> account_game_state
     \<Rightarrow> game_error + game_state" where
  "makeGame D INITIAL_TREES gameState =
     (case reduce_quantities D (db_inventory gameState) (map fst (db_inventory gameState)) [] of
        Inl e \<Rightarrow> Inl e
      | Inr invt \<Rightarrow>
     (case reduce_quantities D (db_stock gameState) (map fst (db_stock gameState)) [] of
        Inl e \<Rightarrow> Inl e
      | Inr stk \<Rightarrow>
     (let dbTrees = (case db_trees gameState of Some ts \<Rightarrow> Stored ts
                                               | None \<Rightarrow> Initial INITIAL_TREES)
      in case reduce_trees D dbTrees (trees_keys dbTrees) [] of
        Inl e \<Rightarrow> Inl e
      | Inr trs \<Rightarrow>
     (case D (db_balance gameState) of
        None \<Rightarrow> Inl DecimalError
      | Some b \<Rightarrow>
          Inr \<lparr>balance = b, inventory = invt, stock = stk,
               fields' = db_fields gameState, trees = trs\<rparr>))))"

text \<open>
  \<open>makeInventory\<close>. Imported and not defined in the module: the item names
  \<open>Object.keys(KNOWN_IDS)\<close>, \<open>getItemUnit\<close> (its argument is undefined, None, when
  the index is past the names) and \<open>fromWei\<close> of web3-utils (None when it throws).
  A computed key \<open>[undefined]\<close> is the string \<open>undefined\<close>.
\<close>

record chain_units =
  KNOWN_IDS_keys :: "string list"
  getItemUnit :: "string option \<Rightarrow> string"
  fromWei :: "string \<Rightarrow> string \<Rightarrow> string option"

definition key_of :: "string option \<Rightarrow> string" where
  "key_of name = (case name of None \<Rightarrow> ''undefined'' | Some n \<Rightarrow> n)"

definition nth_opt :: "'a list \<Rightarrow> nat \<Rightarrow> 'a option" where
  "nth_opt xs i = (if i < length xs then Some (xs ! i) else None)"

text \<open>\<open>new Decimal(fromWei(amount, unit))\<close> for the item at \<open>index\<close>.\<close>

definition item_value ::
  "(string \<Rightarrow> decimal option) \<Rightarrow> chain_units \<Rightarrow> nat \<Rightarrow> string \<Rightarrow> game_error + decimal" where
  "item_value D u index amount =
     (let name = nth_opt (KNOWN_IDS_keys u) index;
          unit = getItemUnit u name
      in case fromWei u amount unit of
           None \<Rightarrow> Inl Web3Error
         | Some s \<Rightarrow> (case D s of None \<Rightarrow> Inl DecimalError | Some v \<Rightarrow> Inr v))"

fun makeInventory_reduce ::
  "(string \<Rightarrow> decimal option) \<Rightarrow> chain_units \<Rightarrow> string list \<Rightarrow> nat
     \<Rightarrow> (string \<times> decimal) list \<Rightarrow> game_error + (string \<times> decimal) list" where
  "makeInventory_reduce D u [] index items = Inr items"
| "makeInventory_reduce D u (amount # rest) index items =
     (case item_value D u index amount of
        Inl e \<Rightarrow> Inl e
      | Inr v \<Rightarrow>
          if v = 0 then makeInventory_reduce D u rest (Suc index) items
          else makeInventory_reduce D u rest (Suc index)
                 (AList.update (key_of (nth_opt (KNOWN_IDS_keys u) index)) v items))"

definition makeInventory ::
  "(string \<Rightarrow> decimal option) \<Rightarrow> chain_units \<Rightarrow> string list
     \<Rightarrow> game_error + (string \<times> decimal) list" where
  "makeInventory D u onchain_amounts = makeInventory_reduce D u onchain_amounts 0 []"

text \<open>
  Predicates for stating what \<open>makeGame\<close> does: every quantity string of the stored
  document is one the Decimal constructor accepts; an object has each key once;
  a stored tree and its converted tree.
\<close>

definition quantities_ok :: "(string \<Rightarrow> decimal option) \<Rightarrow> (string \<times> string) list \<Rightarrow> bool" where
  "quantities_ok D obj = list_all (\<lambda>(k, s). s = [] \<or> D s \<noteq> None) obj"

definition stored_document_ok :: "(string \<Rightarrow> decimal option) \<Rightarrow> account_game_state \<Rightarrow> bool" where
  "stored_document_ok D gs =
     (D (db_balance gs) \<noteq> None \<and> quantities_ok D (db_inventory gs) \<and> quantities_ok D (db_stock gs)
      \<and> (case db_trees gs of None \<Rightarrow> True
                               | Some ts \<Rightarrow> list_all (\<lambda>(i, t). D (db_wood t) \<noteq> None) ts))"

definition object_keys_distinct :: "(nat \<times> tree) list \<Rightarrow> account_game_state \<Rightarrow> bool" where
  "object_keys_distinct INITIAL_TREES gs =
     (distinct (map fst INITIAL_TREES)
      \<and> (case db_trees gs of None \<Rightarrow> True | Some ts \<Rightarrow> distinct (map fst ts)))"

definition tree_of :: "(string \<Rightarrow> decimal option) \<Rightarrow> nat \<times> db_tree \<Rightarrow> nat \<times> tree \<Rightarrow> bool" where
  "tree_of D a b = (fst b = fst a \<and> choppedAt (snd b) = db_choppedAt (snd a)
                     \<and> D (db_wood (snd a)) = Some (wood (snd b)))"

text \<open>
  A reading of the Decimal constructor on the strings of the repository's save test,
  that test's stored document, and the same document with one stored tree.
\<close>

definition test_Decimal :: "string \<Rightarrow> decimal option" where
  "test_Decimal = map_of [(''20'', 20), (''7'', 7), (''2'', 2), (''1'', 1), (''120'', 120)]"

definition test_INITIAL_TREES :: "(nat \<times> tree) list" where
  "test_INITIAL_TREES =
     [(0, \<lparr>choppedAt = 0, wood = 3\<rparr>), (1, \<lparr>choppedAt = 0, wood = 3\<rparr>)]"

definition test_gameState :: account_game_state where
  "test_gameState =
     \<lparr>db_balance = ''20'', db_inventory = [], db_stock = [(''Potato Seed'', ''7'')],
      db_fields = [], db_trees = None\<rparr>"

definition test_gameState_trees :: account_game_state where
  "test_gameState_trees =
     test_gameState\<lparr>db_trees := Some [(4, \<lparr>db_choppedAt = 1000, db_wood = ''2''\<rparr>)]\<rparr>"

section \<open>The replay engine and the save pipeline\<close>

text \<open>
  The module \<open>save.ts\<close> (\<open>processActions\<close>, \<open>save\<close>) is not among the
  sources; its test file is. The definitions of this section follow the specification,
  sections 4.2 to 4.6. The fixtures of the examples are those of the test file.
\<close>

subsection \<open>Inventory arithmetic (specification 4.2)\<close>

text \<open>
  Modelled from the spec: the quantity of an item in an inventory or a stock, which
  \<open>save.ts\<close> reads; an absent entry counts as zero. Decimal arithmetic is exact.
\<close>

definition quantity :: "(string \<times> decimal) list \<Rightarrow> string \<Rightarrow> decimal" where
  "quantity items name = (case map_of items name of None \<Rightarrow> 0 | Some q \<Rightarrow> q)"

text \<open>
  Modelled from the spec: the helper "add quantity" of the farm state model; an absent
  entry becomes present.
\<close>

definition add_quantity :: "(string \<times> decimal) list \<Rightarrow> string \<Rightarrow> decimal \<Rightarrow> (string \<times> decimal) list" where
  "add_quantity items name q = AList.update name (quantity items name + q) items"

text \<open>
  Modelled from the spec: the helper "subtract quantity" of the farm state model; the
  quantity must cover the subtrahend, and the entry is removed when the result reaches
  zero.
\<close>

definition subtract_quantity ::
  "(string \<times> decimal) list \<Rightarrow> string \<Rightarrow> decimal \<Rightarrow> game_error + (string \<times> decimal) list" where
  "subtract_quantity items name q =
     (if quantity items name < q then Inl (InsufficientInventory name)
      else if quantity items name - q = 0 then Inr (AList.delete name items)
      else Inr (AList.update name (quantity items name - q) items))"

subsection \<open>Crafting (specification 4.1 and 4.4)\<close>

text \<open>
  Modelled from the spec: a recipe of the catalog table \<open>recipes\<close>, which the
  sources do not hold: the ingredient list, the SFL price and the craftable flag,
  false for a limited item. The informational supply limit is left out.
\<close>

record recipe =
  ingredients :: "(string \<times> decimal) list"
  sflPrice :: decimal
  craftable :: bool

text \<open>
  Modelled from the spec: the ingredient part of crafting. For each ingredient the
  inventory must hold the cost times the amount, which is subtracted.
\<close>

fun subtract_ingredients ::
  "(string \<times> decimal) list \<Rightarrow> decimal \<Rightarrow> (string \<times> decimal) list
     \<Rightarrow> game_error + (string \<times> decimal) list" where
  "subtract_ingredients [] amount items = Inr items"
| "subtract_ingredients ((name, cost) # rest) amount items =
     (case subtract_quantity items name (cost * amount) of
        Inl e \<Rightarrow> Inl e
      | Inr items' \<Rightarrow> subtract_ingredients rest amount items')"

text \<open>
  Modelled from the spec: the transition of \<open>item.crafted{item, amount}\<close> of the
  dispatcher in \<open>save.ts\<close>. The item must be in \<open>recipes\<close> and craftable; the
  inventory must cover every ingredient and the balance the price times the amount; an
  item sold via stock, one that has a stock entry, needs stock for the amount. The
  effect subtracts ingredients, SFL and stock and adds the amount of the item.
\<close>

definition craft ::
  "(string \<times> recipe) list \<Rightarrow> game_state \<Rightarrow> string \<Rightarrow> decimal \<Rightarrow> game_error + game_state" where
  "craft recipes s item amount =
     (case map_of recipes item of
        None \<Rightarrow> Inl (UnknownItem item)
      | Some r \<Rightarrow>
          if \<not> craftable r then Inl (NotCraftable item)
          else
            (case subtract_ingredients (ingredients r) amount (inventory s) of
               Inl e \<Rightarrow> Inl e
             | Inr items \<Rightarrow>
                 if balance s < sflPrice r * amount then Inl InsufficientBalance
                 else
                   (case map_of (stock s) item of
                      None \<Rightarrow>
                        Inr (s\<lparr>balance := balance s - sflPrice r * amount,
                               inventory := add_quantity items item amount\<rparr>)
                    | Some q \<Rightarrow>
                        if q < amount then Inl (InsufficientStock item)
                        else
                          Inr (s\<lparr>balance := balance s - sflPrice r * amount,
                                 inventory := add_quantity items item amount,
                                 stock := AList.update item (q - amount) (stock s)\<rparr>))))"

subsection \<open>Actions and the temporal gate (specification 3 and 4.3)\<close>

text \<open>
  Modelled from the spec: the closed set of action kinds of section 3 with their
  payloads; the type is declared in a module the sources do not hold.
\<close>

datatype action =
    Planted nat string
  | Harvested nat
  | Chopped nat string
  | Crafted string decimal
  | Sell string decimal
  | Redeemed string

text \<open>
  Modelled from the spec: an action with its common field \<open>createdAt\<close>, read as
  milliseconds since the epoch.
\<close>

record game_event =
  act :: action
  createdAt :: int

text \<open>
  Modelled from the spec: the thresholds of the temporal gate, which section 4.3 asks
  to be named constants of the core; their values are in \<open>save.ts\<close>.
\<close>

record gate_constants =
  FUTURE_TOLERANCE :: int
  MAX_AGE :: int
  MAX_RANGE :: int
  MIN_GAP :: int
  DENSITY_WINDOW :: int
  DENSITY_MAX :: nat

text \<open>
  Modelled from the spec: the values section 4.3 gives for the thresholds, in
  milliseconds.
\<close>

definition spec_constants :: gate_constants where
  "spec_constants =
     \<lparr>FUTURE_TOLERANCE = 60000, MAX_AGE = 300000, MAX_RANGE = 120000,
      MIN_GAP = 10, DENSITY_WINDOW = 300, DENSITY_MAX = 2\<rparr>"

text \<open>
  Modelled from the spec: a check "for every consecutive pair" of the gate, over the
  timestamps of the batch.
\<close>

fun consecutive :: "(int \<Rightarrow> int \<Rightarrow> bool) \<Rightarrow> int list \<Rightarrow> bool" where
  "consecutive P (a # b # ts) = (P a b \<and> consecutive P (b # ts))"
| "consecutive P ts = True"

text \<open>
  Modelled from the spec: the check of chronological order of the gate.
\<close>

definition chronological :: "int list \<Rightarrow> bool" where
  "chronological ts = consecutive (\<lambda>a b. a \<le> b) ts"

text \<open>
  Modelled from the spec: the check of the minimum gap of the gate.
\<close>

definition gaps_ok :: "int \<Rightarrow> int list \<Rightarrow> bool" where
  "gaps_ok g ts = consecutive (\<lambda>a b. g \<le> b - a) ts"

text \<open>
  Modelled from the spec: the check of the density cap of the gate. A window of length
  \<open>w\<close> is a closed interval \<open>[a, a + w]\<close>; the check tries the windows that
  start at an action, which is enough.
\<close>

definition density_ok :: "int \<Rightarrow> nat \<Rightarrow> int list \<Rightarrow> bool" where
  "density_ok w k ts = list_all (\<lambda>a. length (filter (\<lambda>t. a \<le> t \<and> t \<le> a + w) ts) \<le> k) ts"

text \<open>
  Modelled from the spec: the temporal gate of \<open>processActions\<close>, the checks of
  section 4.3 in the order it lists them; the first one that fails gives the error. An
  empty batch passes.
\<close>

definition temporal_gate :: "gate_constants \<Rightarrow> int \<Rightarrow> int list \<Rightarrow> game_error option" where
  "temporal_gate c now ts =
     (if ts = [] then None
      else if \<not> chronological ts then Some TemporalOrder
      else if now + FUTURE_TOLERANCE c < last ts then Some TemporalFuture
      else if hd ts < now - MAX_AGE c then Some TemporalPast
      else if MAX_RANGE c < last ts - hd ts then Some TemporalRange
      else if \<not> gaps_ok (MIN_GAP c) ts then Some TemporalGap
      else if \<not> density_ok (DENSITY_WINDOW c) (DENSITY_MAX c) ts then Some TemporalDensity
      else None)"

text \<open>
  Modelled from the spec: the number of actions of a batch in the window
  \<open>[a, a + w]\<close>, for any start \<open>a\<close>.
\<close>

definition window_count :: "int list \<Rightarrow> int \<Rightarrow> int \<Rightarrow> nat" where
  "window_count ts a w = card {i. i < length ts \<and> a \<le> ts ! i \<and> ts ! i \<le> a + w}"

text \<open>
  Modelled from the spec: the six bounds of the gate as section 4.3 words them, for
  stating properties; a batch violates the gate when one of them fails.
\<close>

definition violates_gate :: "gate_constants \<Rightarrow> int \<Rightarrow> int list \<Rightarrow> bool" where
  "violates_gate c now ts =
     (ts \<noteq> [] \<and>
      ((\<exists>i. Suc i < length ts \<and> ts ! Suc i < ts ! i)
       \<or> now + FUTURE_TOLERANCE c < last ts
       \<or> hd ts < now - MAX_AGE c
       \<or> MAX_RANGE c < last ts - hd ts
       \<or> (\<exists>i. Suc i < length ts \<and> ts ! Suc i - ts ! i < MIN_GAP c)
       \<or> (\<exists>a. DENSITY_MAX c < window_count ts a (DENSITY_WINDOW c))))"

text \<open>
  Modelled from the spec: the error kinds that come from the temporal gate.
\<close>

definition temporal_error :: "game_error \<Rightarrow> bool" where
  "temporal_error e =
     (e = TemporalOrder \<or> e = TemporalFuture \<or> e = TemporalPast \<or> e = TemporalRange
      \<or> e = TemporalGap \<or> e = TemporalDensity)"

subsection \<open>Replay (specification 4.4)\<close>

text \<open>
  Modelled from the spec: the dispatcher of \<open>save.ts\<close>, a transition from the state,
  the action and the clock. The transition of \<open>item.crafted\<close> is \<open>craft\<close>; the
  transitions of the other five kinds are the parameter \<open>others\<close>.
\<close>

type_synonym transition = "game_state \<Rightarrow> game_event \<Rightarrow> int \<Rightarrow> game_error + game_state"

definition dispatch ::
  "(string \<times> recipe) list \<Rightarrow> transition \<Rightarrow> game_state \<Rightarrow> game_event \<Rightarrow> int
     \<Rightarrow> game_error + game_state" where
  "dispatch recipes others s ev now =
     (case act ev of
        Crafted item amount \<Rightarrow> craft recipes s item amount
      | _ \<Rightarrow> others s ev now)"

text \<open>
  Modelled from the spec: the replay of a batch, which applies the actions in the
  order received and fails the whole batch on the first error.
\<close>

fun replay ::
  "(string \<times> recipe) list \<Rightarrow> transition \<Rightarrow> int \<Rightarrow> game_state \<Rightarrow> game_event list
     \<Rightarrow> game_error + game_state" where
  "replay recipes others now s [] = Inr s"
| "replay recipes others now s (ev # evs) =
     (case dispatch recipes others s ev now of
        Inl e \<Rightarrow> Inl e
      | Inr s' \<Rightarrow> replay recipes others now s' evs)"

text \<open>
  Modelled from the spec: what \<open>processActions\<close> takes from its module and from the
  catalog: the thresholds, the recipes and the other transitions.
\<close>

record engine =
  constants :: gate_constants
  recipes :: "(string \<times> recipe) list"
  others :: transition

text \<open>
  Modelled from the spec: \<open>processActions\<close> of \<open>save.ts\<close>, the temporal gate on
  the timestamps of the batch, then the replay.
\<close>

definition processActions ::
  "engine \<Rightarrow> int \<Rightarrow> game_state \<Rightarrow> game_event list \<Rightarrow> game_error + game_state" where
  "processActions eng now s evs =
     (case temporal_gate (constants eng) now (map createdAt evs) of
        Some e \<Rightarrow> Inl e
      | None \<Rightarrow> replay (recipes eng) (others eng) now s evs)"

subsection \<open>The save pipeline (specification 4.5 and 4.6)\<close>

text \<open>
  Modelled from the spec: the farm document the repository holds, as section 6 and
  the test file shape it.
\<close>

record farm_document =
  farm_id :: nat
  session :: string
  gameState :: account_game_state

text \<open>
  Modelled from the spec: the arguments of \<open>save\<close>, as the test file passes them.
\<close>

record save_args =
  save_farmId :: nat
  account :: string
  actions :: "game_event list"

text \<open>
  Modelled from the spec: the two stores a save writes, the farms by id and the event
  log keyed by farm and session.
\<close>

record world =
  farms :: "(nat \<times> farm_document) list"
  event_store :: "((nat \<times> string) \<times> game_event list) list"

text \<open>
  Modelled from the spec: the collaborators of the pipeline, consumed as interfaces:
  the Decimal constructor and \<open>toString\<close>, the default trees, the chain reads and
  the generator of the next session token.
\<close>

record services =
  Decimal_of :: "string \<Rightarrow> decimal option"
  Decimal_toString :: "decimal \<Rightarrow> string"
  initialTrees :: "(nat \<times> tree) list"
  units :: chain_units
  ownerOf :: "nat \<Rightarrow> string"
  loadBalance :: "string \<Rightarrow> string"
  loadInventory :: "string \<Rightarrow> string list"
  nextSession :: "string \<Rightarrow> string"

text \<open>
  Modelled from the spec: step 5 of the pipeline, quantities back to decimal strings.
\<close>

definition serialize :: "(decimal \<Rightarrow> string) \<Rightarrow> game_state \<Rightarrow> account_game_state" where
  "serialize S s =
     \<lparr>db_balance = S (balance s),
      db_inventory = map (\<lambda>(name, q). (name, S q)) (inventory s),
      db_stock = map (\<lambda>(name, q). (name, S q)) (stock s),
      db_fields = fields' s,
      db_trees = Some (map (\<lambda>(i, t). (i, \<lparr>db_choppedAt = choppedAt t, db_wood = S (wood t)\<rparr>))
                        (trees s))\<rparr>"

text \<open>
  Modelled from the spec: the on-chain balance of section 4.5, read in wei and
  converted with 18 decimals.
\<close>

definition onchain_balance :: "services \<Rightarrow> string \<Rightarrow> game_error + decimal" where
  "onchain_balance srv address =
     (case fromWei (units srv) (loadBalance srv address) ''ether'' of
        None \<Rightarrow> Inl Web3Error
      | Some str \<Rightarrow> (case Decimal_of srv str of None \<Rightarrow> Inl DecimalError | Some b \<Rightarrow> Inr b))"

text \<open>
  Modelled from the spec: the reconciler of section 4.5. The on-chain balance overrides
  the balance; the on-chain inventory is converted by \<open>makeInventory\<close> and each of
  its entries, the items that are not zero on chain, overrides the entry of the farm;
  the other items keep their value.
\<close>

definition reconcile :: "services \<Rightarrow> string \<Rightarrow> game_state \<Rightarrow> game_error + game_state" where
  "reconcile srv address s =
     (case onchain_balance srv address of
        Inl e \<Rightarrow> Inl e
      | Inr b \<Rightarrow>
     (case makeInventory (Decimal_of srv) (units srv) (loadInventory srv address) of
        Inl e \<Rightarrow> Inl e
      | Inr onchain \<Rightarrow>
          Inr (s\<lparr>balance := b,
                 inventory := fold (\<lambda>(name, v). AList.update name v) onchain (inventory s)\<rparr>)))"

text \<open>
  Modelled from the spec: the pipeline of section 4.6 with its reconcile step as the
  parameter \<open>R\<close>. Load the document, or fail with \<open>Farm does not exist\<close> when it is
  absent or the sender does not own the farm; read it with \<open>makeGame\<close>; reconcile;
  run the gate and the replay; serialize and persist under a new session token;
  append the batch to the event log; return the state. Every error ends the save with
  the stores as they were. One save runs alone, so the compare-and-swap on the session
  has nothing to lose against and is not modelled.
\<close>

definition save_with ::
  "(services \<Rightarrow> string \<Rightarrow> game_state \<Rightarrow> game_error + game_state) \<Rightarrow> services \<Rightarrow> engine
     \<Rightarrow> int \<Rightarrow> world \<Rightarrow> save_args \<Rightarrow> (game_error + game_state) \<times> world" where
  "save_with R srv eng now w args =
     (case map_of (farms w) (save_farmId args) of
        None \<Rightarrow> (Inl FarmNotFound, w)
      | Some farm \<Rightarrow>
          if ownerOf srv (save_farmId args) \<noteq> account args then (Inl FarmNotFound, w)
          else
            (case makeGame (Decimal_of srv) (initialTrees srv) (gameState farm) of
               Inl e \<Rightarrow> (Inl e, w)
             | Inr loaded \<Rightarrow>
            (case R srv (account args) loaded of
               Inl e \<Rightarrow> (Inl e, w)
             | Inr reconciled \<Rightarrow>
            (case processActions eng now reconciled (actions args) of
               Inl e \<Rightarrow> (Inl e, w)
             | Inr s \<Rightarrow>
                 (Inr s,
                  w\<lparr>farms := AList.update (save_farmId args)
                       (farm\<lparr>session := nextSession srv (session farm),
                             gameState := serialize (Decimal_toString srv) s\<rparr>) (farms w),
                    event_store := event_store w
                       @ [((save_farmId args, session farm), actions args)]\<rparr>)))))"

text \<open>
  Modelled from the spec: \<open>save\<close> of \<open>save.ts\<close>, the pipeline as section 4.6
  words it, with the reconciler of section 4.5 as its second step.
\<close>

definition save ::
  "services \<Rightarrow> engine \<Rightarrow> int \<Rightarrow> world \<Rightarrow> save_args \<Rightarrow> (game_error + game_state) \<times> world" where
  "save = save_with reconcile"

text \<open>
  The fixtures of the test \<open>saves a farm\<close>: the mocked chain reads, the clock, the
  stored farm 13 and the batch that crafts 5 Potato Seed; a catalog with the recipe
  the test implies (0.02 SFL for a Potato Seed) and a limited item.
\<close>

definition test_toString :: "decimal \<Rightarrow> string" where
  "test_toString d =
     (case map_of [(199 / 10, ''19.9''), (1199 / 10, ''119.9''), (1, ''1''), (2, ''2''),
                   (3, ''3''), (5, ''5''), (7, ''7'')] d of
        Some str \<Rightarrow> str | None \<Rightarrow> ''?'')"

definition test_units :: chain_units where
  "test_units =
     \<lparr>KNOWN_IDS_keys = [''Sunflower Seed'', ''Potato Seed'', ''Sunflower'', ''Axe'',
                        ''Pickaxe'', ''Chicken Coop'', ''Pumpkin Soup'', ''Wood'', ''Stone''],
      getItemUnit = (\<lambda>name. ''wei''),
      fromWei = (\<lambda>amount unit.
         if unit = ''wei'' then Some amount
         else if unit = ''ether'' \<and> amount = ''120000000000000000000'' then Some ''120''
         else None)\<rparr>"

definition test_account :: string where
  "test_account = ''0xA9Fe8878e901eF014a789feC3257F72A51d4103F''"

definition test_services :: services where
  "test_services =
     \<lparr>Decimal_of = test_Decimal, Decimal_toString = test_toString,
      initialTrees = test_INITIAL_TREES, units = test_units,
      ownerOf = (\<lambda>farm. test_account),
      loadBalance = (\<lambda>address. ''120000000000000000000''),
      loadInventory = (\<lambda>address. [''1'', ''2'']),
      nextSession = (\<lambda>old. ''0x01'')\<rparr>"

definition test_recipes :: "(string \<times> recipe) list" where
  "test_recipes =
     [(''Potato Seed'', \<lparr>ingredients = [], sflPrice = 2 / 100, craftable = True\<rparr>),
      (''Pumpkin Soup'', \<lparr>ingredients = [(''Pumpkin'', 5)], sflPrice = 1, craftable = True\<rparr>),
      (''Chicken Coop'', \<lparr>ingredients = [(''Wood'', 10)], sflPrice = 200, craftable = False\<rparr>)]"

definition test_engine :: engine where
  "test_engine =
     \<lparr>constants = spec_constants, recipes = test_recipes,
      others = (\<lambda>s ev now. Inl UnknownAction)\<rparr>"

definition test_now :: int where
  "test_now = 1643000000000"

definition test_world :: world where
  "test_world =
     \<lparr>farms = [(13, \<lparr>farm_id = 13, session = ''0x00'', gameState = test_gameState\<rparr>)],
      event_store = []\<rparr>"

definition test_save_args :: save_args where
  "test_save_args =
     \<lparr>save_farmId = 13, account = test_account,
      actions = [\<lparr>act = Crafted ''Potato Seed'' 5, createdAt = test_now\<rparr>]\<rparr>"

text \<open>
  Modelled from the spec: the cost of an ingredient in a recipe, zero for an item the
  recipe does not list; used to state the effect of crafting.
\<close>

definition ingredient_cost :: "recipe \<Rightarrow> string \<Rightarrow> decimal" where
  "ingredient_cost r name = (case map_of (ingredients r) name of None \<Rightarrow> 0 | Some c \<Rightarrow> c)"


text \<open>
  More fixtures: the state \<open>makeGame\<close> reads from the test's stored document, a
  state with the ingredients of a soup, and the batch of the test
  \<open>ensures events are in order\<close>.
\<close>

definition test_state :: game_state where
  "test_state =
     \<lparr>balance = 20, inventory = [], stock = [(''Potato Seed'', 7)], fields' = [],
      trees = test_INITIAL_TREES\<rparr>"

definition test_kitchen :: game_state where
  "test_kitchen =
     \<lparr>balance = 10, inventory = [(''Pumpkin'', 12)], stock = [(''Pumpkin Soup'', 3)],
      fields' = [], trees = []\<rparr>"

definition out_of_order :: "game_event list" where
  "out_of_order =
     [\<lparr>act = Planted 4 ''Sunflower Seed'', createdAt = test_now\<rparr>,
      \<lparr>act = Harvested 4, createdAt = test_now - 60000\<rparr>]"

section \<open>Properties of the token contract\<close>

text \<open>
  C9. In the constructor the assignment is \<open>_team = team\<close>: the parameter is written
  from storage. For all constructor arguments the storage variable \<open>team\<close> is not
  initialised from \<open>_team\<close> and is the zero address after construction; it is the
  parameter that ends as zero, and the storage the constructor leaves does not depend
  on its arguments.
\<close>

theorem constructor_team_zero:
  "team (constructor msg_sender game_arg team_arg) = 0
   \<and> team_param (constructor_body msg_sender
        \<lparr>storage = zero_storage\<lparr>owner := msg_sender\<rparr>,
         game_param = game_arg, team_param = team_arg\<rparr>) = 0
   \<and> constructor msg_sender game_arg team_arg = constructor msg_sender game_arg' team_arg'"
proof -
  let ?f = "\<lparr>storage = zero_storage\<lparr>owner := msg_sender\<rparr>,
             game_param = game_arg, team_param = team_arg\<rparr>"
  have body: "constructor_body msg_sender ?f =
      ?f\<lparr>storage := (storage ?f)\<lparr>gameRoles := (gameRoles (storage ?f))(msg_sender := True)\<rparr>,
         team_param := team (storage ?f)\<rparr>"
    by (simp add: constructor_body_def Let_def)
  have zero: "team (storage ?f) = 0"
    by (simp add: zero_storage_def)
  have written: "team_param (constructor_body msg_sender ?f) = 0"
    using body zero by simp
  have kept: "team (constructor msg_sender game_arg team_arg) = 0"
    using body zero by (simp add: constructor_def)
  have same: "constructor msg_sender game_arg team_arg = constructor msg_sender game_arg' team_arg'"
    by (simp add: constructor_def constructor_body_def Let_def)
  from kept written same show ?thesis by blast
qed

section \<open>Properties of makeGame\<close>

lemma update_fresh: "k \<notin> fst ` set al \<Longrightarrow> AList.update k v al = al @ [(k, v)]"
  by (induction al) auto

lemma map_of_append_fresh:
  "k \<notin> fst ` set pre \<Longrightarrow> map_of (pre @ (k, v) # suf) k = Some v"
  by (induction pre) auto

lemma tree_eta: "\<lparr>choppedAt = choppedAt t, wood = wood t\<rparr> = (t::tree)"
  by (cases t) simp

lemma reduce_trees_Initial:
  "distinct (map fst (pre @ suf)) \<Longrightarrow>
   reduce_trees D (Initial (pre @ suf)) (map fst suf) pre = Inr (pre @ suf)"
proof (induction suf arbitrary: pre)
  case Nil
  then show ?case by simp
next
  case (Cons p suf)
  obtain k t where p: "p = (k, t)" by (cases p)
  from Cons.prems p have fresh: "k \<notin> fst ` set pre" by auto
  have d: "distinct (map fst ((pre @ [(k, t)]) @ suf))" using Cons.prems p by simp
  have "reduce_trees D (Initial ((pre @ [(k, t)]) @ suf)) (map fst suf) (pre @ [(k, t)])
        = Inr ((pre @ [(k, t)]) @ suf)"
    by (rule Cons.IH [OF d])
  moreover have "map_of (pre @ (k, t) # suf) k = Some t"
    using fresh by (rule map_of_append_fresh)
  ultimately show ?case
    using fresh p by (simp add: update_fresh tree_eta del: map_of_append)
qed

lemma reduce_trees_Stored:
  "distinct (map fst (pre @ suf)) \<Longrightarrow> map fst acc = map fst pre \<Longrightarrow>
   reduce_trees D (Stored (pre @ suf)) (map fst suf) acc = Inr r \<Longrightarrow>
   \<exists>r'. r = acc @ r' \<and> list_all2 (tree_of D) suf r'"
proof (induction suf arbitrary: pre acc)
  case Nil
  then show ?case by simp
next
  case (Cons p suf)
  obtain k t where p: "p = (k, t)" by (cases p)
  from Cons.prems p have fresh: "k \<notin> fst ` set pre" by auto
  then have fresh': "k \<notin> fst ` set acc" using Cons.prems(2)
    by (metis list.set_map)
  have lookup: "map_of (pre @ (k, t) # suf) k = Some t"
    using fresh by (rule map_of_append_fresh)
  from Cons.prems(3) p obtain w where w: "D (db_wood t) = Some w"
    and rec: "reduce_trees D (Stored ((pre @ [(k, t)]) @ suf)) (map fst suf)
                (acc @ [(k, \<lparr>choppedAt = db_choppedAt t, wood = w\<rparr>)]) = Inr r"
    by (auto simp: lookup update_fresh [OF fresh'] simp del: map_of_append split: option.splits)
  have d: "distinct (map fst ((pre @ [(k, t)]) @ suf))" using Cons.prems(1) p by simp
  have m: "map fst (acc @ [(k, \<lparr>choppedAt = db_choppedAt t, wood = w\<rparr>)]) = map fst (pre @ [(k, t)])"
    using Cons.prems(2) by simp
  from Cons.IH [OF d m rec] obtain r' where
    "r = (acc @ [(k, \<lparr>choppedAt = db_choppedAt t, wood = w\<rparr>)]) @ r'" "list_all2 (tree_of D) suf r'"
    by blast
  moreover have "tree_of D (k, t) (k, \<lparr>choppedAt = db_choppedAt t, wood = w\<rparr>)"
    using w by (simp add: tree_of_def)
  ultimately show ?case using p
    by (intro exI [of _ "(k, \<lparr>choppedAt = db_choppedAt t, wood = w\<rparr>) # r'"]) simp
qed

lemma reduce_quantities_total:
  "quantities_ok D obj \<Longrightarrow> set ks \<subseteq> fst ` set obj \<Longrightarrow>
   \<exists>r. reduce_quantities D obj ks items = Inr r"
proof (induction ks arbitrary: items)
  case Nil
  then show ?case by simp
next
  case (Cons k ks)
  from Cons.prems(2) obtain s where s: "map_of obj k = Some s"
    by (metis insert_subset list.simps(15) map_of_eq_None_iff not_Some_eq)
  then have "(k, s) \<in> set obj" by (rule map_of_SomeD)
  with Cons.prems(1) have "s = [] \<or> D s \<noteq> None"
    by (auto simp: quantities_ok_def list_all_iff)
  then have "\<exists>d. decimal_or_zero D (Some s) = Some d"
    by (cases "s = []") (auto simp: decimal_or_zero_def)
  then obtain d where "decimal_or_zero D (Some s) = Some d" ..
  moreover have "\<exists>r. reduce_quantities D obj ks (AList.update k d items) = Inr r"
    using Cons.IH Cons.prems by simp
  ultimately show ?case using s by simp
qed

lemma reduce_trees_Stored_total:
  "list_all (\<lambda>(i, t). D (db_wood t) \<noteq> None) ts \<Longrightarrow> set ks \<subseteq> fst ` set ts \<Longrightarrow>
   \<exists>r. reduce_trees D (Stored ts) ks items = Inr r"
proof (induction ks arbitrary: items)
  case Nil
  then show ?case by simp
next
  case (Cons k ks)
  from Cons.prems(2) obtain t where t: "map_of ts k = Some t"
    by (metis insert_subset list.simps(15) map_of_eq_None_iff not_Some_eq)
  then have "(k, t) \<in> set ts" by (rule map_of_SomeD)
  with Cons.prems(1) obtain w where "D (db_wood t) = Some w"
    by (auto simp: list_all_iff)
  then show ?case using t Cons.IH Cons.prems by simp
qed

text \<open>
  C10. For every stored document whose gameState has no \<open>trees\<close> field, makeGame
  returns a GameState whose trees are the default \<open>INITIAL_TREES\<close>; when trees are
  present, each stored tree is converted entry for entry, with the same index and
  choppedAt and with its wood string read as a Decimal. makeGame returns whenever the
  Decimal constructor accepts every quantity string of the document.
\<close>

theorem makeGame_trees:
  assumes "object_keys_distinct INITIAL_TREES gs"
  shows "(stored_document_ok D gs \<longrightarrow> (\<exists>g. makeGame D INITIAL_TREES gs = Inr g))
       \<and> (\<forall>g. makeGame D INITIAL_TREES gs = Inr g \<longrightarrow>
             (case db_trees gs of
                None \<Rightarrow> trees g = INITIAL_TREES
              | Some ts \<Rightarrow> list_all2 (tree_of D) ts (trees g)))"
proof (intro conjI impI allI)
  assume ok: "stored_document_ok D gs"
  obtain iv where iv: "reduce_quantities D (db_inventory gs) (map fst (db_inventory gs)) [] = Inr iv"
    using reduce_quantities_total [of D "db_inventory gs" "map fst (db_inventory gs)" "[]"] ok
    by (auto simp: stored_document_ok_def)
  obtain sk where sk: "reduce_quantities D (db_stock gs) (map fst (db_stock gs)) [] = Inr sk"
    using reduce_quantities_total [of D "db_stock gs" "map fst (db_stock gs)" "[]"] ok
    by (auto simp: stored_document_ok_def)
  obtain b where b: "D (db_balance gs) = Some b"
    using ok by (auto simp: stored_document_ok_def)
  show "\<exists>g. makeGame D INITIAL_TREES gs = Inr g"
  proof (cases "db_trees gs")
    case None
    have "reduce_trees D (Initial ([] @ INITIAL_TREES)) (map fst INITIAL_TREES) []
        = Inr ([] @ INITIAL_TREES)"
      using assms by (intro reduce_trees_Initial) (simp add: object_keys_distinct_def)
    then show ?thesis using None iv sk b
      by (simp add: makeGame_def trees_keys_def)
  next
    case (Some ts)
    then have "list_all (\<lambda>(i, t). D (db_wood t) \<noteq> None) ts"
      using ok by (simp add: stored_document_ok_def)
    then obtain tr where "reduce_trees D (Stored ts) (map fst ts) [] = Inr tr"
      using reduce_trees_Stored_total [of D ts "map fst ts" "[]"] by auto
    then show ?thesis using Some iv sk b
      by (simp add: makeGame_def trees_keys_def)
  qed
next
  fix g
  assume g: "makeGame D INITIAL_TREES gs = Inr g"
  show "case db_trees gs of None \<Rightarrow> trees g = INITIAL_TREES
        | Some ts \<Rightarrow> list_all2 (tree_of D) ts (trees g)"
  proof (cases "db_trees gs")
    case None
    have "reduce_trees D (Initial ([] @ INITIAL_TREES)) (map fst INITIAL_TREES) [] = Inr ([] @ INITIAL_TREES)"
      using assms by (intro reduce_trees_Initial) (simp add: object_keys_distinct_def)
    then show ?thesis using None g
      by (auto simp: makeGame_def trees_keys_def split: sum.splits option.splits)
  next
    case (Some ts)
    from g Some obtain r where r: "reduce_trees D (Stored ([] @ ts)) (map fst ts) [] = Inr r"
      and tg: "trees g = r"
      by (auto simp: makeGame_def trees_keys_def split: sum.splits option.splits)
    have "distinct (map fst ([] @ ts))"
      using assms Some by (simp add: object_keys_distinct_def)
    from reduce_trees_Stored [OF this _ r] have "list_all2 (tree_of D) ts r" by simp
    then show ?thesis using Some tg by simp
  qed
qed

theorem makeGame_trees_witness:
  "object_keys_distinct test_INITIAL_TREES test_gameState
   \<and> object_keys_distinct test_INITIAL_TREES test_gameState_trees
   \<and> stored_document_ok test_Decimal test_gameState
   \<and> (\<exists>g. makeGame test_Decimal test_INITIAL_TREES test_gameState = Inr g
            \<and> trees g = test_INITIAL_TREES)
   \<and> (\<exists>g. makeGame test_Decimal test_INITIAL_TREES test_gameState_trees = Inr g
            \<and> list_all2 (tree_of test_Decimal)
                 [(4, \<lparr>db_choppedAt = 1000, db_wood = ''2''\<rparr>)] (trees g))"
proof -
  have d1: "object_keys_distinct test_INITIAL_TREES test_gameState"
    by (simp add: object_keys_distinct_def test_INITIAL_TREES_def test_gameState_def)
  have d2: "object_keys_distinct test_INITIAL_TREES test_gameState_trees"
    by (simp add: object_keys_distinct_def test_INITIAL_TREES_def test_gameState_def
        test_gameState_trees_def)
  have ok1: "stored_document_ok test_Decimal test_gameState"
    by (simp add: stored_document_ok_def quantities_ok_def test_Decimal_def test_gameState_def)
  have ok2: "stored_document_ok test_Decimal test_gameState_trees"
    by (simp add: stored_document_ok_def quantities_ok_def test_Decimal_def test_gameState_def
        test_gameState_trees_def)
  note t1 = makeGame_trees [OF d1, of test_Decimal]
  note t2 = makeGame_trees [OF d2, of test_Decimal]
  from t1 ok1 obtain g1 where g1: "makeGame test_Decimal test_INITIAL_TREES test_gameState = Inr g1"
    by blast
  with t1 have "trees g1 = test_INITIAL_TREES"
    by (simp add: test_gameState_def)
  moreover
  from t2 ok2 obtain g2 where
    g2: "makeGame test_Decimal test_INITIAL_TREES test_gameState_trees = Inr g2"
    by blast
  with t2 have "list_all2 (tree_of test_Decimal)
      [(4, \<lparr>db_choppedAt = 1000, db_wood = ''2''\<rparr>)] (trees g2)"
    by (simp add: test_gameState_trees_def test_gameState_def)
  ultimately show ?thesis using d1 d2 ok1 g1 g2 by blast
qed

section \<open>Properties of the withdraw handler\<close>

lemma set_VALID_IDS:
  "set (VALID_IDS env) = KNOWN_IDS env ` (set (TOOLS env) \<union> set (LimitedItems env) \<union> set (RESOURCES env))"
  by (auto simp: VALID_IDS_def VALID_ITEMS_def spread_keys_def)

text \<open>
  C7. The catalog tables \<open>TOOLS\<close>, \<open>LimitedItems\<close> and \<open>RESOURCES\<close> are not
  in the sources; they are not all empty, so that \<open>VALID_IDS\<close> holds a value. Then
  the withdraw handler accepts the ids of a request only if every id is in the
  withdrawable set \<open>VALID_IDS\<close>, the on-chain ids of the tools, the limited items
  and the resources. A request with an id outside this set ends in the schema's error
  and nothing has been handed to the signer: no signature is produced.
\<close>

theorem handler_ids_valid:
  assumes "VALID_IDS env \<noteq> []"
  shows "set (VALID_IDS env) =
     KNOWN_IDS env ` (set (TOOLS env) \<union> set (LimitedItems env) \<union> set (RESOURCES env))
   \<and> (\<not> set (ids b) \<subseteq> set (VALID_IDS env) \<longrightarrow>
        (\<exists>key. handler env (Some b) = ([], Inl (JoiError key))))
   \<and> (fst (handler env event) \<noteq> [] \<or> (\<exists>resp. snd (handler env event) = Inr resp) \<longrightarrow>
        (\<exists>b'. event = Some b' \<and> set (ids b') \<subseteq> set (VALID_IDS env)))"
proof (intro conjI impI)
  show "set (VALID_IDS env) =
     KNOWN_IDS env ` (set (TOOLS env) \<union> set (LimitedItems env) \<union> set (RESOURCES env))"
    by (rule set_VALID_IDS)
next
  assume "\<not> set (ids b) \<subseteq> set (VALID_IDS env)"
  then have "\<not> list_all (id_allowed (VALID_IDS env)) (ids b)"
    using assms by (auto simp: list_all_iff id_allowed_def)
  then have "\<exists>key. schema_validate (VALID_IDS env) b = Some key"
    by (simp add: schema_validate_def)
  then show "\<exists>key. handler env (Some b) = ([], Inl (JoiError key))"
    by (auto simp: handler_def)
next
  assume a: "fst (handler env event) \<noteq> [] \<or> (\<exists>resp. snd (handler env event) = Inr resp)"
  then obtain b' where e: "event = Some b'"
    by (cases event) (auto simp: handler_def)
  have "schema_validate (VALID_IDS env) b' = None"
    using a e by (cases "schema_validate (VALID_IDS env) b'") (auto simp: handler_def)
  then have "list_all (id_allowed (VALID_IDS env)) (ids b')"
    by (simp add: schema_validate_def split: if_splits)
  then show "\<exists>b'. event = Some b' \<and> set (ids b') \<subseteq> set (VALID_IDS env)"
    using e assms by (auto simp: list_all_iff id_allowed_def)
qed

text \<open>
  With every catalog table empty the schema restricts the ids to safe integers only.
\<close>

lemma schema_without_valid_ids:
  assumes "VALID_IDS env = []" and "list_all (\<lambda>i. \<bar>i\<bar> \<le> MAX_SAFE_INTEGER) (ids b)"
  shows "schema_validate (VALID_IDS env) b \<noteq> Some ''ids''"
  using assms by (auto simp: schema_validate_def id_allowed_def list_all_iff)

lemma test_VALID_IDS: "VALID_IDS test_withdraw_env = [301, 302, 401, 601, 602]"
  by (simp add: VALID_IDS_def VALID_ITEMS_def spread_keys_def test_withdraw_env_def test_KNOWN_IDS_def)

theorem handler_ids_valid_witness:
  "VALID_IDS test_withdraw_env \<noteq> []
   \<and> \<not> set (ids (test_withdraw_body\<lparr>ids := [301, 501]\<rparr>)) \<subseteq> set (VALID_IDS test_withdraw_env)
   \<and> (\<exists>key. handler test_withdraw_env (Some (test_withdraw_body\<lparr>ids := [301, 501]\<rparr>))
              = ([], Inl (JoiError key)))
   \<and> fst (handler test_withdraw_env (Some test_withdraw_body)) \<noteq> []
   \<and> set (ids test_withdraw_body) \<subseteq> set (VALID_IDS test_withdraw_env)"
proof -
  have bad: "\<not> set (ids (test_withdraw_body\<lparr>ids := [301, 501]\<rparr>)) \<subseteq> set (VALID_IDS test_withdraw_env)"
    by (simp add: test_VALID_IDS test_withdraw_body_def)
  have called: "fst (handler test_withdraw_env (Some test_withdraw_body)) \<noteq> []"
    by (simp add: handler_def schema_validate_def id_allowed_def test_VALID_IDS
        MAX_SAFE_INTEGER_def test_withdraw_body_def) (simp add: test_withdraw_env_def)
  have some: "VALID_IDS test_withdraw_env \<noteq> []"
    by (simp add: test_VALID_IDS)
  from handler_ids_valid [OF some, of "test_withdraw_body\<lparr>ids := [301, 501]\<rparr>"
      "Some test_withdraw_body"] bad called some
  show ?thesis by auto
qed

text \<open>
  C8, as amended. The handler does not compare \<open>ids.length\<close> with
  \<open>amounts.length\<close>: every request that passes the schema, the account
  verification and the whitelist gate is handed to the signer with its ids and its
  amounts as they came, and the schema accepts the request with any number \<open>n\<close>
  of amounts in place of its own.
\<close>

theorem handler_hands_arrays_to_signer:
  assumes "schema_validate (VALID_IDS env) b = None"
    and "verifyAccount env (sender b) (signature b)"
    and "NETWORK env = Some ''mumbai'' \<or> canSync env (sender b)"
  shows "fst (handler env (Some b)) =
           [\<lparr>arg_sender = sender b, arg_farmId = farmId b, arg_sessionId = sessionId b,
             arg_sfl = sfl b, arg_ids = ids b, arg_amounts = amounts b,
             arg_tax = getTax env (sfl b)\<rparr>]
       \<and> schema_validate (VALID_IDS env) (b\<lparr>amounts := replicate n ''1''\<rparr>) = None"
  using assms
  by (auto simp: handler_def Let_def schema_validate_def list_all_iff split: option.splits if_splits)

text \<open>
  The claim C8 as stated fails: a request with two ids and one amount is signed.
\<close>

theorem handler_length_mismatch_counterexample:
  "length (ids (test_withdraw_body\<lparr>amounts := [''1'']\<rparr>))
     \<noteq> length (amounts (test_withdraw_body\<lparr>amounts := [''1'']\<rparr>))
   \<and> handler test_withdraw_env (Some (test_withdraw_body\<lparr>amounts := [''1'']\<rparr>)) =
       ([\<lparr>arg_sender = ''0xA9Fe'', arg_farmId = 13, arg_sessionId = ''0x01'', arg_sfl = ''5'',
          arg_ids = [301, 601], arg_amounts = [''1''], arg_tax = 3000\<rparr>],
        Inr \<lparr>statusCode = 200, body = ''0xsigned''\<rparr>)"
  by (simp add: handler_def schema_validate_def id_allowed_def test_VALID_IDS
      MAX_SAFE_INTEGER_def test_withdraw_body_def) (simp add: test_withdraw_env_def)

theorem handler_hands_arrays_to_signer_witness:
  "schema_validate (VALID_IDS test_withdraw_env) (test_withdraw_body\<lparr>ids := [301]\<rparr>) = None
   \<and> length (ids (test_withdraw_body\<lparr>ids := [301]\<rparr>)) \<noteq> length (amounts (test_withdraw_body\<lparr>ids := [301]\<rparr>))
   \<and> map arg_ids (fst (handler test_withdraw_env (Some (test_withdraw_body\<lparr>ids := [301]\<rparr>)))) = [[301]]
   \<and> map arg_amounts (fst (handler test_withdraw_env (Some (test_withdraw_body\<lparr>ids := [301]\<rparr>)))) = [[''1'', ''2'']]"
proof -
  have v: "schema_validate (VALID_IDS test_withdraw_env) (test_withdraw_body\<lparr>ids := [301]\<rparr>) = None"
    by (simp add: schema_validate_def id_allowed_def test_VALID_IDS MAX_SAFE_INTEGER_def
        test_withdraw_body_def)
  have a: "verifyAccount test_withdraw_env (sender (test_withdraw_body\<lparr>ids := [301]\<rparr>))
             (signature (test_withdraw_body\<lparr>ids := [301]\<rparr>))"
    by (simp add: test_withdraw_env_def)
  have w: "NETWORK test_withdraw_env = Some ''mumbai'' \<or> canSync test_withdraw_env (sender (test_withdraw_body\<lparr>ids := [301]\<rparr>))"
    by (simp add: test_withdraw_env_def)
  from handler_hands_arrays_to_signer [OF v a w] v show ?thesis
    by (simp add: test_withdraw_body_def)
qed

section \<open>Properties of makeInventory and of the reconcile step\<close>









section \<open>Properties of the temporal gate\<close>

lemma consecutive_iff:
  "consecutive P ts \<longleftrightarrow> (\<forall>i. Suc i < length ts \<longrightarrow> P (ts ! i) (ts ! Suc i))"
proof (induction P ts rule: consecutive.induct)
  case (1 P a b ts)
  have "(\<forall>i. Suc i < length (a # b # ts) \<longrightarrow> P ((a # b # ts) ! i) ((a # b # ts) ! Suc i))
        \<longleftrightarrow> P a b \<and> (\<forall>i. Suc i < length (b # ts) \<longrightarrow> P ((b # ts) ! i) ((b # ts) ! Suc i))"
    (is "?L \<longleftrightarrow> ?R")
  proof
    assume l: ?L
    have "P a b" using l [rule_format, of 0] by simp
    moreover have "\<And>i. Suc i < length (b # ts) \<Longrightarrow> P ((b # ts) ! i) ((b # ts) ! Suc i)"
      using l [rule_format, of "Suc _"] by simp
    ultimately show ?R by blast
  next
    assume r: ?R
    show ?L
    proof (intro allI impI)
      fix i assume "Suc i < length (a # b # ts)"
      then show "P ((a # b # ts) ! i) ((a # b # ts) ! Suc i)"
        using r by (cases i) auto
    qed
  qed
  with 1 show ?case by simp
qed simp_all

lemma window_count_filter:
  "window_count ts a w = length (filter (\<lambda>t. a \<le> t \<and> t \<le> a + w) ts)"
  by (simp add: window_count_def length_filter_conv_card)

lemma window_count_anchor:
  assumes "0 < window_count ts a w"
  shows "\<exists>a' \<in> set ts. window_count ts a w \<le> window_count ts a' w"
proof -
  let ?I = "{i. i < length ts \<and> a \<le> ts ! i \<and> ts ! i \<le> a + w}"
  have fin: "finite ?I" by simp
  have ne: "?I \<noteq> {}"
  proof
    assume "?I = {}"
    then have "window_count ts a w = 0"
      unfolding window_count_def by (simp only: card.empty)
    with assms show False by simp
  qed
  define a' where "a' = Min ((\<lambda>i. ts ! i) ` ?I)"
  have "a' \<in> (\<lambda>i. ts ! i) ` ?I"
    unfolding a'_def using fin ne by (intro Min_in) auto
  then obtain j where j: "j \<in> ?I" "a' = ts ! j" by blast
  then have mem: "a' \<in> set ts" by simp
  have le: "\<And>i. i \<in> ?I \<Longrightarrow> a' \<le> ts ! i"
    unfolding a'_def using fin by (intro Min_le) auto
  have "a \<le> a'" using j by simp
  then have sub: "?I \<subseteq> {i. i < length ts \<and> a' \<le> ts ! i \<and> ts ! i \<le> a' + w}"
    using le by auto
  have "card ?I \<le> card {i. i < length ts \<and> a' \<le> ts ! i \<and> ts ! i \<le> a' + w}"
    by (rule card_mono [OF _ sub]) simp
  with mem show ?thesis by (auto simp: window_count_def)
qed

lemma density_ok_iff:
  "density_ok w k ts \<longleftrightarrow> (\<forall>a. window_count ts a w \<le> k)"
proof
  assume ok: "density_ok w k ts"
  show "\<forall>a. window_count ts a w \<le> k"
  proof
    fix a
    show "window_count ts a w \<le> k"
    proof (cases "0 < window_count ts a w")
      case True
      then obtain a' where "a' \<in> set ts" "window_count ts a w \<le> window_count ts a' w"
        using window_count_anchor by blast
      moreover have "window_count ts a' w \<le> k"
        using ok \<open>a' \<in> set ts\<close> by (simp add: density_ok_def list_all_iff window_count_filter)
      ultimately show ?thesis by linarith
    next
      case False
      then show ?thesis by simp
    qed
  qed
next
  assume "\<forall>a. window_count ts a w \<le> k"
  then show "density_ok w k ts"
    by (simp add: density_ok_def list_all_iff window_count_filter)
qed

lemma temporal_gate_None_iff:
  "temporal_gate c now ts = None \<longleftrightarrow> \<not> violates_gate c now ts"
  by (auto simp: temporal_gate_def violates_gate_def chronological_def gaps_ok_def
      consecutive_iff density_ok_iff not_le not_less)

lemma temporal_gate_error:
  "temporal_gate c now ts = Some e \<Longrightarrow> temporal_error e"
  by (auto simp: temporal_gate_def temporal_error_def split: if_splits)

lemma save_with_rejects:
  assumes "\<And>s. \<exists>e. processActions eng now s (actions args) = Inl e"
  shows "\<exists>e. save_with R srv eng now w args = (Inl e, w)"
proof (cases "map_of (farms w) (save_farmId args)")
  case None
  then show ?thesis by (simp add: save_with_def)
next
  case (Some farm)
  show ?thesis
  proof (cases "ownerOf srv (save_farmId args) = account args")
    case False
    then show ?thesis using Some by (simp add: save_with_def)
  next
    case True
    show ?thesis
    proof (cases "makeGame (Decimal_of srv) (initialTrees srv) (gameState farm)")
      case (Inl e)
      then show ?thesis using Some True by (simp add: save_with_def)
    next
      case (Inr loaded)
      show ?thesis
      proof (cases "R srv (account args) loaded")
        case (Inl e)
        then show ?thesis using Some True Inr by (simp add: save_with_def)
      next
        case rec: (Inr reconciled)
        from assms obtain e where "processActions eng now reconciled (actions args) = Inl e"
          by blast
        then show ?thesis using Some True Inr rec by (simp add: save_with_def)
      qed
    qed
  qed
qed

lemma processActions_gate:
  "temporal_gate (constants eng) now (map createdAt evs) = Some e \<Longrightarrow>
   processActions eng now s evs = Inl e"
  by (simp add: processActions_def)

text \<open>
  C4. Temporal rejection atomicity: for every batch that violates one of the checks of
  the temporal gate (chronological order, future bound, age bound, range bound, gap or
  density), the replay ends in the error of the gate whatever the state and the
  actions are, and a save of the batch ends in an error with the stores as they were:
  no action is applied and nothing is committed.
\<close>

theorem temporal_rejection_atomic:
  assumes "violates_gate (constants eng) now (map createdAt (actions args))"
  shows "(\<exists>e. temporal_error e
            \<and> temporal_gate (constants eng) now (map createdAt (actions args)) = Some e
            \<and> processActions eng now s (actions args) = Inl e)
       \<and> (\<exists>e. save_with R srv eng now w args = (Inl e, w))"
proof -
  from assms obtain e where e: "temporal_gate (constants eng) now (map createdAt (actions args)) = Some e"
    using temporal_gate_None_iff [of "constants eng" now "map createdAt (actions args)"] by auto
  then have te: "temporal_error e" by (rule temporal_gate_error)
  have pa: "\<And>s. processActions eng now s (actions args) = Inl e"
    using e by (rule processActions_gate)
  then have "\<exists>e. save_with R srv eng now w args = (Inl e, w)"
    by (intro save_with_rejects) blast
  with e te pa show ?thesis by blast
qed

theorem temporal_rejection_atomic_witness:
  "violates_gate spec_constants test_now (map createdAt out_of_order)
   \<and> processActions test_engine test_now test_state out_of_order = Inl TemporalOrder
   \<and> save test_services test_engine test_now test_world (test_save_args\<lparr>actions := out_of_order\<rparr>)
       = (Inl TemporalOrder, test_world)"
proof -
  have v: "violates_gate (constants test_engine) test_now
             (map createdAt (actions (test_save_args\<lparr>actions := out_of_order\<rparr>)))"
    unfolding violates_gate_def
    by (intro conjI disjI1 exI [of _ 0]) (simp_all add: out_of_order_def)
  have g: "temporal_gate (constants test_engine) test_now
             (map createdAt (actions (test_save_args\<lparr>actions := out_of_order\<rparr>))) = Some TemporalOrder"
    by (simp add: temporal_gate_def chronological_def out_of_order_def)
  from temporal_rejection_atomic [OF v, of test_state reconcile test_services test_world] g
  have "processActions test_engine test_now test_state out_of_order = Inl TemporalOrder"
    and "\<exists>e. save test_services test_engine test_now test_world (test_save_args\<lparr>actions := out_of_order\<rparr>)
           = (Inl e, test_world)"
    by (auto simp: save_def)
  moreover have "fst (save test_services test_engine test_now test_world
       (test_save_args\<lparr>actions := out_of_order\<rparr>)) = Inl TemporalOrder"
    by code_simp
  ultimately show ?thesis using v by (auto simp: test_engine_def)
qed

subsection \<open>The thresholds of section 4.3 and the test file\<close>

text \<open>
  The test file fixes two batches that the gate rejects: two actions at 100 and 5
  milliseconds before now, with \<open>Event fired too quickly\<close>, and three actions at 400,
  250 and 50 milliseconds before now, with \<open>Too many events in a short time\<close>. With
  the values of section 4.3 the gate accepts both. A gate that rejects the first batch
  for its gap has a minimum gap above 95 milliseconds; one that rejects the second for
  its density with a cap of 2 has a window of at least 350 milliseconds.
\<close>

lemma spec_constants_accept_quick_pair:
  "temporal_gate spec_constants test_now [test_now - 100, test_now - 5] = None"
  by (simp add: temporal_gate_def chronological_def gaps_ok_def density_ok_def spec_constants_def)

lemma spec_constants_accept_three_sells:
  "temporal_gate spec_constants test_now [test_now - 400, test_now - 250, test_now - 50] = None"
  by (simp add: temporal_gate_def chronological_def gaps_ok_def density_ok_def spec_constants_def)

lemma quick_pair_rejected_gap:
  assumes "temporal_gate c now [now - 100, now - 5] = Some TemporalGap"
  shows "95 < MIN_GAP c"
  using assms
  by (auto simp: temporal_gate_def chronological_def gaps_ok_def split: if_splits)

lemma three_sells_rejected_window:
  assumes "temporal_gate c now [now - 400, now - 250, now - 50] = Some TemporalDensity"
    and "DENSITY_MAX c = 2"
  shows "350 \<le> DENSITY_WINDOW c"
  using assms
  by (auto simp: temporal_gate_def density_ok_def split: if_splits)

section \<open>Properties of crafting\<close>

lemma quantity_update:
  "quantity (AList.update k v items) n = (if n = k then v else quantity items n)"
  by (simp add: quantity_def update_conv')

lemma quantity_delete:
  "quantity (AList.delete k items) n = (if n = k then 0 else quantity items n)"
  by (simp add: quantity_def delete_conv')

lemma subtract_quantity_ok:
  assumes "q \<le> quantity items k"
  shows "\<exists>items'. subtract_quantity items k q = Inr items'
           \<and> (\<forall>n. quantity items' n = (if n = k then quantity items k - q else quantity items n))"
  using assms by (auto simp: subtract_quantity_def quantity_update quantity_delete)

lemma subtract_ingredients_ok:
  assumes "distinct (map fst ings)"
    and "\<forall>(name, cost) \<in> set ings. cost * amount \<le> quantity items name"
  shows "\<exists>items'. subtract_ingredients ings amount items = Inr items'
           \<and> (\<forall>n. quantity items' n =
                 quantity items n - (case map_of ings n of None \<Rightarrow> 0 | Some c \<Rightarrow> c) * amount)"
  using assms
proof (induction ings arbitrary: items)
  case Nil
  then show ?case by simp
next
  case (Cons p ings)
  obtain k c where p: "p = (k, c)" by (cases p)
  from Cons.prems p have cover: "c * amount \<le> quantity items k" by simp
  from subtract_quantity_ok [OF cover] obtain items1 where
    s1: "subtract_quantity items k (c * amount) = Inr items1"
    and q1: "\<And>n. quantity items1 n = (if n = k then quantity items k - c * amount else quantity items n)"
    by blast
  from Cons.prems p have fresh: "k \<notin> fst ` set ings" and d: "distinct (map fst ings)" by auto
  have cov: "\<forall>(name, cost) \<in> set ings. cost * amount \<le> quantity items1 name"
  proof (clarify)
    fix name cost assume m: "(name, cost) \<in> set ings"
    then have "name \<noteq> k" using fresh by force
    then show "cost * amount \<le> quantity items1 name"
      using Cons.prems(2) m by (auto simp: q1)
  qed
  from Cons.IH [OF d cov] obtain items' where
    s2: "subtract_ingredients ings amount items1 = Inr items'"
    and q2: "\<And>n. quantity items' n =
               quantity items1 n - (case map_of ings n of None \<Rightarrow> 0 | Some c \<Rightarrow> c) * amount"
    by blast
  have none: "map_of ings k = None" using fresh by (simp add: map_of_eq_None_iff)
  have "\<forall>n. quantity items' n =
          quantity items n - (case map_of ((k, c) # ings) n of None \<Rightarrow> 0 | Some c \<Rightarrow> c) * amount"
    by (auto simp: q2 q1 none)
  then show ?case using p s1 s2 by simp
qed

text \<open>
  C2. For every \<open>item.crafted{item, amount}\<close> action whose recipe is craftable,
  with the inventory covering each ingredient cost times the amount, the balance
  covering the price times the amount and the stock covering the amount, the transition
  succeeds; it subtracts the ingredients and the price times the amount, subtracts the
  amount from the stock of the item and adds the amount of the item to the inventory,
  and leaves fields and trees alone. The ingredient names of a recipe are distinct.
\<close>

theorem craft_effect:
  assumes "act ev = Crafted item amount"
    and "map_of (recipes eng) item = Some r" and "craftable r"
    and "distinct (map fst (ingredients r))"
    and "\<forall>(name, cost) \<in> set (ingredients r). cost * amount \<le> quantity (inventory s) name"
    and "sflPrice r * amount \<le> balance s"
    and "map_of (stock s) item = Some q" and "amount \<le> q"
  shows "\<exists>s'. dispatch (recipes eng) (others eng) s ev now = Inr s'
           \<and> balance s' = balance s - sflPrice r * amount
           \<and> (\<forall>name. quantity (inventory s') name =
                 quantity (inventory s) name - ingredient_cost r name * amount
                   + (if name = item then amount else 0))
           \<and> (\<forall>name. quantity (stock s') name =
                 quantity (stock s) name - (if name = item then amount else 0))
           \<and> fields' s' = fields' s \<and> trees s' = trees s"
proof -
  from subtract_ingredients_ok [OF assms(4,5)] obtain items where
    si: "subtract_ingredients (ingredients r) amount (inventory s) = Inr items"
    and qi: "\<And>n. quantity items n = quantity (inventory s) n - ingredient_cost r n * amount"
    by (auto simp: ingredient_cost_def)
  let ?s' = "s\<lparr>balance := balance s - sflPrice r * amount,
               inventory := add_quantity items item amount,
               stock := AList.update item (q - amount) (stock s)\<rparr>"
  have c: "craft (recipes eng) s item amount = Inr ?s'"
    using assms(2,3,6,7,8) si by (simp add: craft_def)
  have qs: "quantity (stock s) item = q" using assms(7) by (simp add: quantity_def)
  have "\<forall>name. quantity (inventory ?s') name =
          quantity (inventory s) name - ingredient_cost r name * amount
            + (if name = item then amount else 0)"
    by (simp add: add_quantity_def quantity_update qi)
  moreover have "\<forall>name. quantity (stock ?s') name =
          quantity (stock s) name - (if name = item then amount else 0)"
    by (simp add: quantity_update qs)
  ultimately show ?thesis
    using c assms(1) by (simp add: dispatch_def)
qed

theorem craft_effect_witness:
  "(\<exists>s'. dispatch (recipes test_engine) (others test_engine) test_state
            \<lparr>act = Crafted ''Potato Seed'' 5, createdAt = test_now\<rparr> test_now = Inr s'
         \<and> balance s' = 20 - 2 / 100 * 5
         \<and> quantity (inventory s') ''Potato Seed'' = 5
         \<and> quantity (stock s') ''Potato Seed'' = 2)
   \<and> (\<exists>s'. dispatch (recipes test_engine) (others test_engine) test_kitchen
            \<lparr>act = Crafted ''Pumpkin Soup'' 2, createdAt = test_now\<rparr> test_now = Inr s'
         \<and> balance s' = 8
         \<and> quantity (inventory s') ''Pumpkin'' = 2
         \<and> quantity (inventory s') ''Pumpkin Soup'' = 2
         \<and> quantity (stock s') ''Pumpkin Soup'' = 1)"
proof -
  have potato: "map_of (recipes test_engine) ''Potato Seed''
      = Some \<lparr>ingredients = [], sflPrice = 2 / 100, craftable = True\<rparr>"
    by (simp add: test_engine_def test_recipes_def)
  have soup: "map_of (recipes test_engine) ''Pumpkin Soup''
      = Some \<lparr>ingredients = [(''Pumpkin'', 5)], sflPrice = 1, craftable = True\<rparr>"
    by (simp add: test_engine_def test_recipes_def)
  from craft_effect [where ev = "\<lparr>act = Crafted ''Potato Seed'' 5, createdAt = test_now\<rparr>"
      and amount = 5 and s = test_state and q = 7 and now = test_now, OF _ potato]
  obtain s1 where
    "dispatch (recipes test_engine) (others test_engine) test_state
       \<lparr>act = Crafted ''Potato Seed'' 5, createdAt = test_now\<rparr> test_now = Inr s1"
    "balance s1 = 20 - 2 / 100 * 5"
    "quantity (inventory s1) ''Potato Seed'' = 5"
    "quantity (stock s1) ''Potato Seed'' = 2"
    by (auto simp: test_state_def quantity_def ingredient_cost_def)
  moreover
  from craft_effect [where ev = "\<lparr>act = Crafted ''Pumpkin Soup'' 2, createdAt = test_now\<rparr>"
      and amount = 2 and s = test_kitchen and q = 3 and now = test_now, OF _ soup]
  obtain s2 where
    "dispatch (recipes test_engine) (others test_engine) test_kitchen
       \<lparr>act = Crafted ''Pumpkin Soup'' 2, createdAt = test_now\<rparr> test_now = Inr s2"
    "balance s2 = 8"
    "quantity (inventory s2) ''Pumpkin'' = 2"
    "quantity (inventory s2) ''Pumpkin Soup'' = 2"
    "quantity (stock s2) ''Pumpkin Soup'' = 1"
    by (auto simp: test_kitchen_def quantity_def ingredient_cost_def)
  ultimately show ?thesis by blast
qed

end
